theory Spec2Isabelle
  imports Main "HOL-Library.Word"
begin

unbundle bit_operations_syntax

section \<open>Honeywell Galaxy 7 keypad driver: data model\<close>

text \<open>
  The driver is the C++ class \<open>HoneywellGalaxy7Keypad\<close>
  (\<^verbatim>\<open>honeywell_galaxy7_keypad.h\<close>, \<^verbatim>\<open>honeywell_galaxy7_keypad.cpp\<close>).
  Its member variables become the fields of one record, \<open>uint8_t\<close> and \<open>uint32_t\<close>
  become 8-bit and 32-bit words (so \<open>+\<close> and \<open>-\<close> wrap as in C++), and every member
  function becomes a function from the state to the new state. The trailing underscore
  of the C++ member names is dropped.
\<close>

type_synonym u8 = "8 word"
type_synonym u32 = "32 word"

datatype LastCmd =
  CMD_NONE | CMD_POLL_00 | CMD_ACTIVITY_19 | CMD_SCREEN_07 | CMD_BEEP_0C | CMD_BACKLIGHT_0D

text \<open>
  The last four fields record the effects of the driver on its collaborators, in call
  order: \<open>uart_tx\<close> holds the byte arrays handed to \<open>write_array\<close>, \<open>published\<close> the
  strings handed to \<open>rx_sens_->publish_state\<close>, \<open>timeouts\<close> the calls of
  \<open>set_timeout\<close> (name, delay in ms, and what the callback publishes), and
  \<open>keypress_calls\<close> the arguments of each call of \<open>handle_keypress_\<close>.
  \<open>rx_sens\<close> is \<open>True\<close> when the pointer \<open>rx_sens_\<close> is not null.
\<close>

record keypad =
  display_text :: string
  display_line1 :: string
  display_line2 :: string
  input_buffer :: string
  rx_sens :: bool
  last_init_poll :: u32
  last_activity_poll :: u32
  last_screen_push :: u32
  last_tx_time :: u32
  last_key_ts :: u32
  backlight_off_at :: u32
  awaiting_reply :: bool
  last_cmd :: LastCmd
  sent_second_init :: bool
  needs_button_ack :: bool
  screen_dirty :: bool
  beep_set :: bool
  backlight_on :: bool
  backlight_cmd_pending :: bool
  backlight_target_on :: bool
  in_tamper :: bool
  last_key_name :: string
  last_key_tamper :: bool
  backlight_timeout_ms :: u32
  ack_toggle :: u8
  device_id :: u8
  beep_mode :: u8
  beep_period :: u8
  beep_quiet_period :: u8
  screen_seq_flag :: u8
  need_reinit_after_f2 :: bool
  key_ack_pending :: bool
  ack_pending_code :: u8
  rx_buf :: "u8 list"
  last_panel_rx_ms :: u32
  panel_online :: bool
  uart_tx :: "u8 list list"
  published :: "string list"
  timeouts :: "(string \<times> nat \<times> string) list"
  keypress_calls :: "(string \<times> bool) list"

text \<open>The default member initialisers of the header.\<close>

definition initial_keypad :: keypad where
  "initial_keypad = \<lparr>
     display_text = ''ESP-HOME|Initializing'',
     display_line1 = ''ESP-HOME'',
     display_line2 = ''Initializing'',
     input_buffer = [],
     rx_sens = False,
     last_init_poll = 0,
     last_activity_poll = 0,
     last_screen_push = 0,
     last_tx_time = 0,
     last_key_ts = 0,
     backlight_off_at = 0,
     awaiting_reply = False,
     last_cmd = CMD_NONE,
     sent_second_init = False,
     needs_button_ack = False,
     screen_dirty = True,
     beep_set = False,
     backlight_on = False,
     backlight_cmd_pending = False,
     backlight_target_on = False,
     in_tamper = False,
     last_key_name = [],
     last_key_tamper = False,
     backlight_timeout_ms = 15000,
     ack_toggle = 0x02,
     device_id = 0x20,
     beep_mode = 0x00,
     beep_period = 0x00,
     beep_quiet_period = 0x00,
     screen_seq_flag = 0x00,
     need_reinit_after_f2 = False,
     key_ack_pending = False,
     ack_pending_code = 0x00,
     rx_buf = [],
     last_panel_rx_ms = 0,
     panel_online = False,
     uart_tx = [],
     published = [],
     timeouts = [],
     keypress_calls = [] \<rparr>"

subsection \<open>Constants\<close>

definition KEYPAD_ADDR :: u8 where "KEYPAD_ADDR = 0x11"
definition INIT_POLL_SECOND_MS :: u32 where "INIT_POLL_SECOND_MS = 5000"
definition INIT_POLL_INTERVAL_MS :: u32 where "INIT_POLL_INTERVAL_MS = 5000"
definition ACTIVITY_POLL_INTERVAL_MS :: u32 where "ACTIVITY_POLL_INTERVAL_MS = 150"
definition REPLY_WAIT_MS :: u32 where "REPLY_WAIT_MS = 100"
definition KEY_DEDUPE_WINDOW_MS :: u32 where "KEY_DEDUPE_WINDOW_MS = 100"
definition PANEL_OFFLINE_TIMEOUT_MS :: u32 where "PANEL_OFFLINE_TIMEOUT_MS = 300"

section \<open>Frame codec\<close>

text \<open>
  \<open>galaxy_checksum\<close>: a \<open>uint32_t\<close> accumulator starts at \<open>0xAA\<close>, every byte is added
  to it, and the four bytes of the accumulator are added up; the sum is computed in 32
  bits and truncated to \<open>uint8_t\<close> by the return.
\<close>

definition galaxy_checksum :: "u8 list \<Rightarrow> u8" where
  "galaxy_checksum data =
     (let temp = fold (\<lambda>b (t :: u32). t + ucast b) data 0xAA
      in ucast ((drop_bit 24 temp AND 0xFF) + (drop_bit 16 temp AND 0xFF)
                + (drop_bit 8 temp AND 0xFF) + (temp AND 0xFF)))"

text \<open>
  The checksum as the specification words it, on natural numbers: the accumulator is
  \<open>0xAA\<close> plus the sum of the bytes, kept in 32 bits, and its four bytes are added
  modulo 256.
\<close>

definition spec_checksum :: "nat list \<Rightarrow> nat" where
  "spec_checksum payload =
     (let acc = (170 + sum_list payload) mod 2 ^ 32
      in (acc div 2 ^ 24 mod 256 + acc div 2 ^ 16 mod 256 + acc div 2 ^ 8 mod 256
          + acc mod 256) mod 256)"

text \<open>\<open>send_frame\<close>: the payload followed by its checksum, written in one call.\<close>

definition send_frame :: "u8 list \<Rightarrow> keypad \<Rightarrow> keypad" where
  "send_frame payload s = s\<lparr>uart_tx := uart_tx s @ [payload @ [galaxy_checksum payload]]\<rparr>"

section \<open>Key decoder\<close>

text \<open>
  \<open>decode_key_and_tamper_\<close>: the sentinel \<open>0x7F\<close> first, then the switch on the low
  nibble, with its \<open>default\<close> branch last.
\<close>

definition decode_key_and_tamper :: "u8 \<Rightarrow> string \<times> bool" where
  "decode_key_and_tamper code =
     (if code = 0x7F then ([], True)
      else
        let tamper = (code AND 0x40 \<noteq> 0);
            key_code = code AND 0x0F
        in if key_code = 0x00 then (''0'', tamper)
           else if key_code = 0x01 then (''1'', tamper)
           else if key_code = 0x02 then (''2'', tamper)
           else if key_code = 0x03 then (''3'', tamper)
           else if key_code = 0x04 then (''4'', tamper)
           else if key_code = 0x05 then (''5'', tamper)
           else if key_code = 0x06 then (''6'', tamper)
           else if key_code = 0x07 then (''7'', tamper)
           else if key_code = 0x08 then (''8'', tamper)
           else if key_code = 0x09 then (''9'', tamper)
           else if key_code = 0x0A then (''B'', tamper)
           else if key_code = 0x0B then (''A'', tamper)
           else if key_code = 0x0C then (''ENT'', tamper)
           else if key_code = 0x0D then (''ESC'', tamper)
           else if key_code = 0x0E then (''*'', tamper)
           else if key_code = 0x0F then (''#'', tamper)
           else ([], tamper))"

text \<open>The sixteen labels of the switch, in the order of its cases.\<close>

definition key_labels :: "string list" where
  "key_labels = map (\<lambda>c. [c]) ''0123456789BA'' @ [''ENT'', ''ESC''] @ map (\<lambda>c. [c]) ''*#''"

section \<open>Display model and backlight\<close>

text \<open>
  \<open>parse_display_text_\<close>: the text is split at the first \<open>|\<close>; without one the
  second line is empty.
\<close>

definition parse_display_text :: "keypad \<Rightarrow> keypad" where
  "parse_display_text s =
     (if CHR ''|'' \<in> set (display_text s)
      then s\<lparr>display_line1 := takeWhile (\<lambda>c. c \<noteq> CHR ''|'') (display_text s),
             display_line2 := tl (dropWhile (\<lambda>c. c \<noteq> CHR ''|'') (display_text s))\<rparr>
      else s\<lparr>display_line1 := display_text s, display_line2 := []\<rparr>)"

text \<open>
  \<open>bump_backlight_\<close>; \<open>now\<close> is the value \<open>millis()\<close> returns. Every function below
  that reads the clock takes each reading as an argument of its own.
\<close>

definition bump_backlight :: "keypad \<Rightarrow> u32 \<Rightarrow> keypad" where
  "bump_backlight s now =
     (let s1 = s\<lparr>backlight_off_at := now + backlight_timeout_ms s\<rparr>
      in if \<not> backlight_on s1
         then s1\<lparr>backlight_target_on := True, backlight_cmd_pending := True\<rparr>
         else s1)"

definition set_display_text :: "keypad \<Rightarrow> string \<Rightarrow> u32 \<Rightarrow> keypad" where
  "set_display_text s text now =
     (let s1 = (if text = [] then s\<lparr>display_text := ''ESP-HOME|Initializing''\<rparr>
                else s\<lparr>display_text := text\<rparr>);
          s2 = parse_display_text s1;
          s3 = s2\<lparr>screen_dirty := True\<rparr>
      in bump_backlight s3 now)"

definition set_display_text_nobl :: "keypad \<Rightarrow> string \<Rightarrow> keypad" where
  "set_display_text_nobl s text =
     (let s1 = (if text = [] then s\<lparr>display_text := ''ESP-HOME|Initializing''\<rparr>
                else s\<lparr>display_text := text\<rparr>);
          s2 = parse_display_text s1
      in s2\<lparr>screen_dirty := True\<rparr>)"

definition set_beep_enabled :: "keypad \<Rightarrow> bool \<Rightarrow> u8 \<Rightarrow> u8 \<Rightarrow> keypad" where
  "set_beep_enabled s enabled period quiet =
     s\<lparr>beep_mode := (if enabled then 0x01 else 0x00), beep_period := period,
       beep_quiet_period := quiet, beep_set := False\<rparr>"

text \<open>\<open>std::string::resize\<close> to 16 characters, padding with spaces.\<close>

definition resize16 :: "string \<Rightarrow> string" where
  "resize16 line =
     (if length line > 16 then take 16 line
      else line @ replicate (16 - length line) CHR '' '')"

text \<open>
  \<open>build_screen_frame_\<close> returns the frame and, as it flips the sequence flag and may
  consume the owed acknowledgement, the new state.
\<close>

definition build_screen_frame :: "keypad \<Rightarrow> u8 list \<times> keypad" where
  "build_screen_frame s =
     (let modifier0 = (0x01 :: u8);
          s1 = s\<lparr>screen_seq_flag := (if screen_seq_flag s = 0x00 then 0x80 else 0x00)\<rparr>;
          modifier1 = modifier0 OR screen_seq_flag s1;
          (modifier, s2) =
            (if needs_button_ack s1
             then (modifier1 OR 0x10 OR ack_toggle s1,
                   s1\<lparr>ack_toggle := (if ack_toggle s1 = 0x00 then 0x02 else 0x00),
                      needs_button_ack := False\<rparr>)
             else (modifier1, s1));
          line2 = (if input_buffer s2 = [] then display_line2 s2
                   else replicate (min (length (input_buffer s2)) 16) CHR ''*'');
          line1 = display_line1 s2
      in ([device_id s2, 0x07, modifier, 0x17] @ map of_char (resize16 line1) @ [0x02]
            @ map of_char (resize16 line2) @ [0x07],
          s2))"

section \<open>Input handling\<close>

definition update_tamper_state :: "keypad \<Rightarrow> bool \<Rightarrow> keypad" where
  "update_tamper_state s new_tamper =
     (if new_tamper = in_tamper s then s else s\<lparr>in_tamper := new_tamper\<rparr>)"

definition isdigit :: "char \<Rightarrow> bool" where
  "isdigit c = (c \<in> set ''0123456789'')"

text \<open>
  \<open>handle_keypress_\<close>; \<open>now\<close> is the clock reading of its \<open>bump_backlight_\<close>. The
  call itself is recorded in \<open>keypress_calls\<close>. The callback handed to \<open>set_timeout\<close>
  publishes the empty string.
\<close>

definition handle_keypress :: "keypad \<Rightarrow> string \<Rightarrow> bool \<Rightarrow> u32 \<Rightarrow> keypad" where
  "handle_keypress s key_name tamper now =
     (let s0 = s\<lparr>keypress_calls := keypress_calls s @ [(key_name, tamper)]\<rparr>;
          s1 = bump_backlight s0 now
      in if key_name = ''ESC'' then
           (let s2 = (if input_buffer s1 \<noteq> []
                      then s1\<lparr>input_buffer := [], screen_dirty := True\<rparr> else s1)
            in s2\<lparr>screen_dirty := True\<rparr>)
         else if key_name = ''ENT'' then
           (if input_buffer s1 \<noteq> [] then
              (let code = input_buffer s1;
                   s2 = s1\<lparr>input_buffer := [], screen_dirty := True\<rparr>
               in if rx_sens s2
                  then s2\<lparr>published := published s2 @ [code],
                          timeouts := timeouts s2 @ [(''clear_rx_sens'', 200, [])]\<rparr>
                  else s2)
            else s1\<lparr>screen_dirty := True\<rparr>)
         else if length key_name = 1 \<and>
                 (isdigit (key_name ! 0) \<or> key_name ! 0 = CHR ''*'' \<or> key_name ! 0 = CHR ''#'')
         then s1\<lparr>input_buffer := input_buffer s1 @ [key_name ! 0], screen_dirty := True\<rparr>
         else if key_name = ''A'' \<or> key_name = ''B''
         then s1\<lparr>input_buffer := input_buffer s1 @ [key_name ! 0], screen_dirty := True\<rparr>
         else s1)"

section \<open>Reply interpreter\<close>

text \<open>
  The shared handler of an \<open>F4\<close> frame of four bytes (the block under
  \<^verbatim>\<open>if (type == 0xF4 && bytes.size() == 4)\<close>): \<open>code\<close> and \<open>cs\<close> are the
  third and fourth byte, \<open>now_ms\<close> the clock reading of the dedupe check and \<open>now_bl\<close>
  the one of the backlight bump in \<open>handle_keypress_\<close>.
\<close>

definition handle_f4 :: "keypad \<Rightarrow> u8 \<Rightarrow> u8 \<Rightarrow> u32 \<Rightarrow> u32 \<Rightarrow> keypad" where
  "handle_f4 s code cs now_ms now_bl =
     (let expected = galaxy_checksum [KEYPAD_ADDR, 0xF4, code]
      in if expected \<noteq> cs then s
         else
           let key_name = fst (decode_key_and_tamper code);
               tamper = snd (decode_key_and_tamper code);
               tamper_only = (key_name = [] \<and> tamper);
               s1 = update_tamper_state s tamper
           in if last_cmd s1 = CMD_SCREEN_07 then
                (if code = 0x7F
                 then s1\<lparr>key_ack_pending := False, ack_pending_code := 0x00\<rparr>
                 else s1)
              else if last_cmd s1 = CMD_ACTIVITY_19 then
                (if tamper_only then s1
                 else if key_name = [] \<and> \<not> tamper then s1
                 else
                   let duplicate_time =
                         (key_name = last_key_name s1 \<and> tamper = last_key_tamper s1 \<and>
                          now_ms - last_key_ts s1 \<le> KEY_DEDUPE_WINDOW_MS);
                       duplicate_ack = (key_ack_pending s1 \<and> code = ack_pending_code s1);
                       s2 = (if \<not> duplicate_time \<and> \<not> duplicate_ack
                             then handle_keypress
                                    (s1\<lparr>last_key_name := key_name, last_key_tamper := tamper,
                                        last_key_ts := now_ms\<rparr>)
                                    key_name tamper now_bl
                             else s1)
                   in s2\<lparr>needs_button_ack := True, screen_dirty := True,
                         key_ack_pending := True, ack_pending_code := code\<rparr>)
              else s1)"

text \<open>
  \<open>handle_reply_for_cmd_\<close>; \<open>now\<close> is the clock reading that becomes
  \<open>last_panel_rx_ms_\<close>. The reads \<open>bytes[1]\<close> and \<open>bytes[2]\<close> are guarded by the
  length tests of the source.
\<close>

definition handle_reply_for_cmd :: "keypad \<Rightarrow> u8 list \<Rightarrow> u32 \<Rightarrow> u32 \<Rightarrow> u32 \<Rightarrow> keypad" where
  "handle_reply_for_cmd s bytes now now_ms now_bl =
     (if bytes = [] \<or> bytes ! 0 \<noteq> KEYPAD_ADDR then s
      else
        let s1 = s\<lparr>last_panel_rx_ms := now\<rparr>;
            s2 = (if \<not> panel_online s1
                  then s1\<lparr>panel_online := True, beep_set := False, screen_dirty := True\<rparr>
                  else s1);
            type = (if length bytes \<ge> 2 then bytes ! 1 else 0x00)
        in if last_cmd s2 = CMD_ACTIVITY_19 \<and> type = 0xFE \<and> length bytes \<ge> 3 \<and> bytes ! 2 = 0xBA
           then s2
           else if last_cmd s2 = CMD_SCREEN_07 \<and> type = 0xF2
           then s2\<lparr>need_reinit_after_f2 := True, screen_dirty := True\<rparr>
           else if last_cmd s2 = CMD_SCREEN_07 \<and> type = 0xFE \<and> length bytes \<ge> 3 \<and> bytes ! 2 = 0xBA
           then update_tamper_state s2 False
           else if (last_cmd s2 = CMD_BEEP_0C \<or> last_cmd s2 = CMD_BACKLIGHT_0D) \<and> type = 0xFE \<and>
                   length bytes \<ge> 3 \<and> bytes ! 2 = 0xBA
           then s2
           else if type = 0xF4 \<and> length bytes = 4
           then handle_f4 s2 (bytes ! 2) (bytes ! 3) now_ms now_bl
           else s2)"

section \<open>Command scheduler\<close>

text \<open>
  The idle block of \<open>loop\<close> (\<^verbatim>\<open>if (!this->awaiting_reply_) { ... }\<close>) in three
  parts: the forced re-init branch, which returns from \<open>loop\<close>; the \<open>if\<close>/\<open>else if\<close>
  chain that chooses \<open>cmd_to_send\<close>; and the \<open>switch\<close> that sends it.
\<close>

definition reinit_after_f2 :: "keypad \<Rightarrow> u32 \<Rightarrow> keypad" where
  "reinit_after_f2 s now =
     (send_frame [device_id s, 0x00, 0x0F] s)
       \<lparr>last_cmd := CMD_POLL_00, awaiting_reply := True, last_tx_time := now,
        last_init_poll := now, ack_toggle := 0x02, screen_seq_flag := 0x00,
        need_reinit_after_f2 := False, rx_buf := [], screen_dirty := True\<rparr>"

definition choose_cmd :: "keypad \<Rightarrow> u32 \<Rightarrow> LastCmd \<times> keypad" where
  "choose_cmd s now =
     (if \<not> sent_second_init s \<and> now - last_init_poll s \<ge> INIT_POLL_SECOND_MS
      then (CMD_POLL_00, s)
      else if sent_second_init s \<and> screen_dirty s
      then (CMD_SCREEN_07, s)
      else if now - last_init_poll s \<ge> INIT_POLL_INTERVAL_MS
      then (CMD_POLL_00, s\<lparr>ack_toggle := 0x02, screen_seq_flag := 0x00\<rparr>)
      else if sent_second_init s \<and> \<not> beep_set s
      then (CMD_BEEP_0C, s)
      else if backlight_cmd_pending s
      then (CMD_BACKLIGHT_0D, s)
      else if now - last_activity_poll s \<ge> ACTIVITY_POLL_INTERVAL_MS
      then (CMD_ACTIVITY_19, s)
      else (CMD_NONE, s))"

text \<open>\<open>now_bl\<close> is the clock reading of the backlight bump after a screen push.\<close>

definition send_cmd :: "keypad \<Rightarrow> LastCmd \<Rightarrow> u32 \<Rightarrow> u32 \<Rightarrow> keypad" where
  "send_cmd s cmd_to_send now now_bl =
     (case cmd_to_send of
        CMD_POLL_00 \<Rightarrow>
          (let s1 = (if \<not> sent_second_init s
                     then (send_frame [device_id s, 0x00, 0x0F] s)\<lparr>sent_second_init := True\<rparr>
                     else send_frame [device_id s, 0x00, 0x0F] s)
           in s1\<lparr>last_init_poll := now\<rparr>)
      | CMD_SCREEN_07 \<Rightarrow>
          (let screen = fst (build_screen_frame s);
               s1 = snd (build_screen_frame s);
               s2 = send_frame screen s1;
               s3 = s2\<lparr>last_screen_push := now, screen_dirty := False\<rparr>
           in bump_backlight s3 now_bl)
      | CMD_ACTIVITY_19 \<Rightarrow>
          (send_frame [device_id s, 0x19, 0x01] s)\<lparr>last_activity_poll := now\<rparr>
      | CMD_BEEP_0C \<Rightarrow>
          (send_frame [device_id s, 0x0C, beep_mode s, beep_period s, beep_quiet_period s] s)
            \<lparr>beep_set := True\<rparr>
      | CMD_BACKLIGHT_0D \<Rightarrow>
          (let val = (if backlight_target_on s then 0x01 else 0x00);
               s1 = send_frame [device_id s, 0x0D, val] s
           in s1\<lparr>backlight_on := backlight_target_on s1, backlight_cmd_pending := False\<rparr>)
      | CMD_NONE \<Rightarrow> s)"

text \<open>
  The whole idle block. The first component of the result tells whether \<open>loop\<close>
  returns at once (the forced re-init branch does).
\<close>

definition loop_idle :: "keypad \<Rightarrow> u32 \<Rightarrow> u32 \<Rightarrow> bool \<times> keypad" where
  "loop_idle s now now_bl =
     (if need_reinit_after_f2 s then (True, reinit_after_f2 s now)
      else
        let cmd_to_send = fst (choose_cmd s now);
            s1 = snd (choose_cmd s now)
        in if cmd_to_send \<noteq> CMD_NONE
           then (False, (send_cmd s1 cmd_to_send now now_bl)
                          \<lparr>last_cmd := cmd_to_send, awaiting_reply := True,
                           last_tx_time := now, rx_buf := []\<rparr>)
           else (False, s1))"

text \<open>
  The other three blocks of \<open>loop\<close>: the offline timeout at its start, the receive
  and reply block (\<open>avail\<close> are the bytes the UART has available in this tick, read into
  \<open>rx_buf_\<close>; \<open>rnow\<close>, \<open>rnow_ms\<close>, \<open>rnow_bl\<close> are the clock readings of the reply
  handler), and the backlight timeout at its end.
\<close>

definition panel_timeout :: "keypad \<Rightarrow> u32 \<Rightarrow> keypad" where
  "panel_timeout s now =
     (if panel_online s \<and> now - last_panel_rx_ms s > PANEL_OFFLINE_TIMEOUT_MS
      then s\<lparr>panel_online := False\<rparr> else s)"

definition process_reply :: "keypad \<Rightarrow> u32 \<Rightarrow> u8 list \<Rightarrow> u32 \<Rightarrow> u32 \<Rightarrow> u32 \<Rightarrow> keypad" where
  "process_reply s now avail rnow rnow_ms rnow_bl =
     (let s1 = s\<lparr>rx_buf := rx_buf s @ avail\<rparr>
      in if awaiting_reply s1 \<and> now - last_tx_time s1 \<ge> REPLY_WAIT_MS
         then (let s2 = (if rx_buf s1 \<noteq> []
                         then handle_reply_for_cmd s1 (rx_buf s1) rnow rnow_ms rnow_bl
                         else s1)
               in s2\<lparr>rx_buf := [], awaiting_reply := False\<rparr>)
         else s1)"

definition backlight_timeout :: "keypad \<Rightarrow> u32 \<Rightarrow> keypad" where
  "backlight_timeout s now =
     (if backlight_on s \<and> now \<ge> backlight_off_at s
      then (let s1 = s\<lparr>backlight_target_on := False, backlight_cmd_pending := True\<rparr>
            in if input_buffer s1 \<noteq> []
               then s1\<lparr>input_buffer := [], screen_dirty := True\<rparr>
               else s1)
      else s)"

text \<open>
  \<open>loop\<close>, with its own clock reading \<open>now\<close>: the four blocks in order. The forced
  re-init branch of the idle block returns before the other blocks run.
\<close>

definition loop :: "keypad \<Rightarrow> u32 \<Rightarrow> u32 \<Rightarrow> u8 list \<Rightarrow> u32 \<Rightarrow> u32 \<Rightarrow> u32 \<Rightarrow> keypad" where
  "loop s now now_bl avail rnow rnow_ms rnow_bl =
     (let s1 = panel_timeout s now;
          idle = (if \<not> awaiting_reply s1 then loop_idle s1 now now_bl else (False, s1))
      in if fst idle then snd idle
         else backlight_timeout
                (process_reply (snd idle) now avail rnow rnow_ms rnow_bl) now)"

text \<open>\<open>setup\<close>, with its two clock readings.\<close>

definition setup_keypad :: "keypad \<Rightarrow> u32 \<Rightarrow> u32 \<Rightarrow> keypad" where
  "setup_keypad s now_bl now =
     (let s1 = parse_display_text s;
          s2 = s1\<lparr>backlight_off_at := now_bl + backlight_timeout_ms s1,
                 backlight_target_on := False, backlight_cmd_pending := False,
                 backlight_on := False\<rparr>;
          s3 = s2\<lparr>last_init_poll := now\<rparr>;
          s4 = send_frame [device_id s3, 0x00, 0x0E] s3
      in s4\<lparr>last_cmd := CMD_POLL_00, awaiting_reply := True, last_tx_time := now,
            last_activity_poll := now, rx_buf := []\<rparr>)"

section \<open>Notions used by the statements\<close>

text \<open>
  What \<open>handle_reply_for_cmd_\<close> does to every frame that starts with the keypad
  address, before it looks at the rest: the receive time is refreshed, and a panel that
  was offline comes online, which also asks for the beep command and a screen push.
\<close>

definition mark_panel_rx :: "keypad \<Rightarrow> u32 \<Rightarrow> keypad" where
  "mark_panel_rx s now =
     (if panel_online s then s\<lparr>last_panel_rx_ms := now\<rparr>
      else s\<lparr>last_panel_rx_ms := now, panel_online := True, beep_set := False,
             screen_dirty := True\<rparr>)"

text \<open>A key or tamper event as the keypad sends it, with its checksum.\<close>

definition f4_frame :: "u8 \<Rightarrow> u8 list" where
  "f4_frame code = [KEYPAD_ADDR, 0xF4, code, galaxy_checksum [KEYPAD_ADDR, 0xF4, code]]"

text \<open>
  The scheduling policy as the specification words it: seven conditions in priority
  order, the first that holds decides, and none may hold.
\<close>

datatype action =
  ForcedReinit | SecondInitPoll | ScreenUpdate | PeriodicInitPoll | BeepConfig
  | BacklightSet | ActivityPoll

definition spec_schedule :: "keypad \<Rightarrow> u32 \<Rightarrow> action option" where
  "spec_schedule s now =
     (if need_reinit_after_f2 s then Some ForcedReinit
      else if \<not> sent_second_init s \<and> 5000 \<le> now - last_init_poll s then Some SecondInitPoll
      else if sent_second_init s \<and> screen_dirty s then Some ScreenUpdate
      else if 5000 \<le> now - last_init_poll s then Some PeriodicInitPoll
      else if sent_second_init s \<and> \<not> beep_set s then Some BeepConfig
      else if backlight_cmd_pending s then Some BacklightSet
      else if 150 \<le> now - last_activity_poll s then Some ActivityPoll
      else None)"

text \<open>The payload of each action, after the wire command catalogue of the specification.\<close>

definition spec_payload :: "keypad \<Rightarrow> action \<Rightarrow> u8 list" where
  "spec_payload s a =
     (case a of
        ForcedReinit \<Rightarrow> [device_id s, 0x00, 0x0F]
      | SecondInitPoll \<Rightarrow> [device_id s, 0x00, 0x0F]
      | ScreenUpdate \<Rightarrow> fst (build_screen_frame s)
      | PeriodicInitPoll \<Rightarrow> [device_id s, 0x00, 0x0F]
      | BeepConfig \<Rightarrow> [device_id s, 0x0C, beep_mode s, beep_period s, beep_quiet_period s]
      | BacklightSet \<Rightarrow> [device_id s, 0x0D, if backlight_target_on s then 0x01 else 0x00]
      | ActivityPoll \<Rightarrow> [device_id s, 0x19, 0x01])"

definition spec_frames :: "keypad \<Rightarrow> u32 \<Rightarrow> u8 list list" where
  "spec_frames s now =
     (case spec_schedule s now of
        None \<Rightarrow> []
      | Some a \<Rightarrow> [spec_payload s a @ [galaxy_checksum (spec_payload s a)]])"

text \<open>
  The two toggles hold one bit each. This is true of the initial state and kept by every
  entry point of the driver (shown below).
\<close>

definition toggles_ok :: "keypad \<Rightarrow> bool" where
  "toggles_ok s =
     (screen_seq_flag s \<in> {0x00, 0x80} \<and> ack_toggle s \<in> {0x00, 0x02})"

text \<open>
  Consecutive calls of \<open>build_screen_frame_\<close>. Before each call the display lines,
  the input buffer and the owed-acknowledgement flag are set to the given values, as the
  rest of the driver may have changed them since the last call; the toggles are
  touched by the calls only. The result is the list of frames built.
\<close>

fun build_screen_frames ::
  "keypad \<Rightarrow> (string \<times> string \<times> string \<times> bool) list \<Rightarrow> u8 list list" where
  "build_screen_frames s [] = []"
| "build_screen_frames s ((line1, line2, input, owe) # rest) =
     (let r = build_screen_frame
                (s\<lparr>display_line1 := line1, display_line2 := line2, input_buffer := input,
                   needs_button_ack := owe\<rparr>)
      in fst r # build_screen_frames (snd r) rest)"

text \<open>\<open>alternating b n\<close>: \<open>n\<close> truth values, each the opposite of the one before, the first the opposite of \<open>b\<close>.\<close>

fun alternating :: "bool \<Rightarrow> nat \<Rightarrow> bool list" where
  "alternating b 0 = []"
| "alternating b (Suc n) = (\<not> b) # alternating (\<not> b) n"

section \<open>The checksum\<close>

lemma unat_u32_less: "unat (a :: u32) < 2 ^ 32"
  using unsigned_less [of a, where 'a = nat] by simp

lemma unat_ucast_u8_u32: "unat (ucast (b :: u8) :: u32) = unat b"
proof -
  have "unat b < 2 ^ 8"
    using unsigned_less [of b, where 'a = nat] by simp
  then have "unat b < 2 ^ 32" by simp
  then show ?thesis
    by (simp add: unsigned_ucast_eq take_bit_nat_eq_self_iff)
qed

text \<open>The accumulation loop, from any start value of the accumulator.\<close>

lemma unat_accumulate:
  "unat (fold (\<lambda>b (t :: u32). t + ucast b) (data :: u8 list) a)
     = (unat a + sum_list (map unat data)) mod 2 ^ 32"
proof (induction data arbitrary: a)
  case Nil
  show ?case using unat_u32_less [of a] by simp
next
  case (Cons b bs)
  have "unat (a + ucast b) = (unat a + unat b) mod 2 ^ 32"
    by (simp add: unat_word_ariths unat_ucast_u8_u32)
  then show ?case
    using Cons by (simp add: mod_add_left_eq add.assoc)
qed

lemma unat_byte_of_u32: "unat (drop_bit n (t :: u32) AND 0xFF) = unat t div 2 ^ n mod 256"
proof -
  have "drop_bit n t AND 0xFF = take_bit 8 (drop_bit n t)"
    by (simp add: take_bit_eq_mask mask_eq_exp_minus_1)
  then have "unat (drop_bit n t AND 0xFF) = take_bit 8 (drop_bit n (unat t))"
    by (simp add: unat_drop_bit_eq unsigned_take_bit_eq)
  then show ?thesis
    by (simp add: take_bit_eq_mod drop_bit_eq_div)
qed

lemma unat_sum_of_four_bytes:
  fixes a b c d :: u32
  assumes "unat a < 256" "unat b < 256" "unat c < 256" "unat d < 256"
  shows "unat (a + b + c + d) = unat a + unat b + unat c + unat d"
proof -
  have ab: "unat (a + b) = unat a + unat b"
    using assms by (simp add: unat_word_ariths)
  have abc: "unat (a + b + c) = unat a + unat b + unat c"
    using assms ab by (simp add: unat_word_ariths)
  show ?thesis
    using assms abc by (simp add: unat_word_ariths)
qed

text \<open>
  C7. \<open>galaxy_checksum\<close> depends on its payload only (it is a function of the byte
  list) and equals the checksum of the specification: the 32-bit accumulator \<open>0xAA\<close>
  plus the sum of the payload bytes, folded into one byte by adding its four bytes
  modulo 256. On the payload \<open>[0x20, 0x00, 0x0E]\<close> it is \<open>0xD8\<close>.
\<close>

theorem galaxy_checksum_additive_fold:
  "unat (galaxy_checksum data) = spec_checksum (map unat data)
   \<and> galaxy_checksum [0x20, 0x00, 0x0E] = 0xD8"
proof
  define temp where "temp = fold (\<lambda>b (t :: u32). t + ucast b) data 0xAA"
  have acc: "unat temp = (170 + sum_list (map unat data)) mod 2 ^ 32"
    unfolding temp_def by (simp add: unat_accumulate)
  have low: "unat (temp AND 0xFF) = unat temp mod 256"
    using unat_byte_of_u32 [of 0 temp] by simp
  have "unat (galaxy_checksum data) =
          unat ((drop_bit 24 temp AND 0xFF) + (drop_bit 16 temp AND 0xFF)
                + (drop_bit 8 temp AND 0xFF) + (temp AND 0xFF)) mod 256"
    unfolding galaxy_checksum_def temp_def [symmetric] Let_def
    by (simp add: unsigned_ucast_eq take_bit_eq_mod)
  also have "\<dots> = (unat temp div 2 ^ 24 mod 256 + unat temp div 2 ^ 16 mod 256
                     + unat temp div 2 ^ 8 mod 256 + unat temp mod 256) mod 256"
    by (subst unat_sum_of_four_bytes)
       (simp_all only: unat_byte_of_u32 low mod_less_divisor zero_less_numeral)
  finally show "unat (galaxy_checksum data) = spec_checksum (map unat data)"
    unfolding spec_checksum_def Let_def acc .
next
  show "galaxy_checksum [0x20, 0x00, 0x0E] = 0xD8"
    by (simp add: galaxy_checksum_def)
qed

section \<open>The key decoder\<close>

lemma nat_below_16:
  "(n :: nat) < 16 \<Longrightarrow> n \<in> {0, 1, 2, 3, 4, 5, 6, 7, 8, 9, 10, 11, 12, 13, 14, 15}"
  by (simp add: numeral_eq_Suc less_Suc_eq)

lemma low_nibble_cases:
  "(code :: u8) AND 0x0F \<in> {0, 1, 2, 3, 4, 5, 6, 7, 8, 9, 10, 11, 12, 13, 14, 15}"
proof -
  have "unat (code AND 0x0F) \<le> unat (0x0F :: u8)"
    by (rule word_and_le1 [THEN word_le_nat_alt [THEN iffD1]])
  then have "unat (code AND 0x0F) < 16" by simp
  then have "unat (code AND 0x0F) \<in> {0, 1, 2, 3, 4, 5, 6, 7, 8, 9, 10, 11, 12, 13, 14, 15}"
    by (rule nat_below_16)
  then have "of_nat (unat (code AND 0x0F))
               \<in> ((of_nat ` {0, 1, 2, 3, 4, 5, 6, 7, 8, 9, 10, 11, 12, 13, 14, 15}) :: u8 set)"
    by (rule imageI)
  then show ?thesis by simp
qed

lemma decode_label_known:
  "code \<noteq> 0x7F \<Longrightarrow> fst (decode_key_and_tamper code) \<in> set key_labels"
  using low_nibble_cases [of code]
  by (auto simp: decode_key_and_tamper_def key_labels_def Let_def)

lemma decode_label_empty_iff: "fst (decode_key_and_tamper code) = [] \<longleftrightarrow> code = 0x7F"
  using decode_label_known [of code]
  by (auto simp: key_labels_def decode_key_and_tamper_def)

lemma decode_sentinel: "decode_key_and_tamper 0x7F = ([], True)"
  by (simp add: decode_key_and_tamper_def)

text \<open>
  C10. \<open>decode_key_and_tamper_\<close> gives, for every code other than the sentinel
  \<open>0x7F\<close>, one of the sixteen labels of its switch, none of which is empty. So the
  result is tamper-only (empty label, tamper set) exactly for \<open>0x7F\<close>, and no code
  gives an empty label with tamper clear: the test
  \<^verbatim>\<open>key_name.empty() && !tamper\<close> of the reply handler never succeeds.
\<close>

theorem decode_key_and_tamper_total:
  "(code \<noteq> 0x7F \<longrightarrow>
      fst (decode_key_and_tamper code) \<in> set key_labels \<and> fst (decode_key_and_tamper code) \<noteq> [])
   \<and> ((fst (decode_key_and_tamper code) = [] \<and> snd (decode_key_and_tamper code)) = (code = 0x7F))
   \<and> \<not> (fst (decode_key_and_tamper code) = [] \<and> \<not> snd (decode_key_and_tamper code))"
  using decode_label_known [of code] decode_label_empty_iff [of code] decode_sentinel
  by auto

theorem decode_key_and_tamper_total_witness:
  "(0x4C :: u8) \<noteq> 0x7F \<and> decode_key_and_tamper 0x4C = (''ENT'', True)
   \<and> fst (decode_key_and_tamper 0x4C) \<in> set key_labels
   \<and> decode_key_and_tamper 0x7F = ([], True)"
  using decode_key_and_tamper_total [of "0x4C"]
  by (simp add: decode_key_and_tamper_def)

section \<open>The reply interpreter\<close>

subsection \<open>Frames from another address\<close>

text \<open>
  C8. A reply whose first byte is not the keypad address \<open>0x11\<close> leaves the whole
  state as it was: tamper, input buffer, online flag, receive time, pending
  acknowledgement, toggles and flags.
\<close>

theorem handle_reply_wrong_address_ignored:
  "b \<noteq> KEYPAD_ADDR \<Longrightarrow> handle_reply_for_cmd s (b # rest) now now_ms now_bl = s"
  by (simp add: handle_reply_for_cmd_def)

theorem handle_reply_wrong_address_ignored_witness:
  "(0x20 :: u8) \<noteq> KEYPAD_ADDR
   \<and> handle_reply_for_cmd (setup_keypad initial_keypad 0 0) [0x20, 0xF4, 0x01, 0xB0] 100 100 100
       = setup_keypad initial_keypad 0 0"
proof -
  have h: "(0x20 :: u8) \<noteq> KEYPAD_ADDR"
    by (simp add: KEYPAD_ADDR_def)
  show ?thesis
    using h handle_reply_wrong_address_ignored [OF h] by simp
qed

subsection \<open>Malformed key frames\<close>

lemma handle_f4_bad_checksum:
  "cs \<noteq> galaxy_checksum [KEYPAD_ADDR, 0xF4, code] \<Longrightarrow> handle_f4 s code cs now_ms now_bl = s"
  by (auto simp add: handle_f4_def Let_def)

text \<open>
  C2, as the claim states it, fails: a frame from the keypad address with type \<open>0xF4\<close>
  and a wrong checksum, arriving as the reply to the first poll of \<open>setup\<close>, turns the
  online flag on and moves the receive time from 0 to 100.
\<close>

theorem malformed_f4_counterexample:
  "[0x11, 0xF4, 0x01, 0x00] ! 0 = KEYPAD_ADDR
   \<and> [0x11, 0xF4, 0x01, 0x00 :: u8] ! 3 \<noteq> galaxy_checksum [KEYPAD_ADDR, 0xF4, 0x01]
   \<and> \<not> panel_online (setup_keypad initial_keypad 0 0)
   \<and> panel_online
        (handle_reply_for_cmd (setup_keypad initial_keypad 0 0) [0x11, 0xF4, 0x01, 0x00] 100 100 100)
   \<and> last_panel_rx_ms (setup_keypad initial_keypad 0 0) = 0
   \<and> last_panel_rx_ms
        (handle_reply_for_cmd (setup_keypad initial_keypad 0 0) [0x11, 0xF4, 0x01, 0x00] 100 100 100)
       = 100"
  by (simp add: handle_reply_for_cmd_def handle_f4_def setup_keypad_def initial_keypad_def
      parse_display_text_def send_frame_def galaxy_checksum_def KEYPAD_ADDR_def Let_def)

text \<open>
  C2, amended. A reply from the keypad address with type \<open>0xF4\<close> whose length is not 4,
  or whose fourth byte is not the checksum of address, \<open>0xF4\<close> and code, changes
  nothing but what every frame from the keypad address changes: the receive time becomes
  the current time and the panel is online (coming online clears \<open>beep_set_\<close> and sets
  \<open>screen_dirty_\<close>). Tamper state, input buffer and the pending-acknowledgement fields
  stay as they were.
\<close>

theorem malformed_f4_only_marks_link:
  assumes "bytes = KEYPAD_ADDR # 0xF4 # rest"
    and "length bytes \<noteq> 4 \<or> bytes ! 3 \<noteq> galaxy_checksum [KEYPAD_ADDR, 0xF4, bytes ! 2]"
  shows "handle_reply_for_cmd s bytes now now_ms now_bl = mark_panel_rx s now
         \<and> in_tamper (mark_panel_rx s now) = in_tamper s
         \<and> input_buffer (mark_panel_rx s now) = input_buffer s
         \<and> key_ack_pending (mark_panel_rx s now) = key_ack_pending s
         \<and> ack_pending_code (mark_panel_rx s now) = ack_pending_code s
         \<and> needs_button_ack (mark_panel_rx s now) = needs_button_ack s
         \<and> last_panel_rx_ms (mark_panel_rx s now) = now
         \<and> panel_online (mark_panel_rx s now)"
  using assms
  by (auto simp add: handle_reply_for_cmd_def mark_panel_rx_def Let_def handle_f4_bad_checksum)

theorem malformed_f4_only_marks_link_witness:
  "handle_reply_for_cmd (setup_keypad initial_keypad 0 0) [0x11, 0xF4, 0x01, 0x00] 100 100 100
     = mark_panel_rx (setup_keypad initial_keypad 0 0) 100
   \<and> handle_reply_for_cmd (setup_keypad initial_keypad 0 0) [0x11, 0xF4, 0x01] 100 100 100
     = mark_panel_rx (setup_keypad initial_keypad 0 0) 100"
  using malformed_f4_only_marks_link
          [of "[0x11, 0xF4, 0x01, 0x00]" "[0x01, 0x00]" "setup_keypad initial_keypad 0 0" 100 100 100]
        malformed_f4_only_marks_link
          [of "[0x11, 0xF4, 0x01]" "[0x01]" "setup_keypad initial_keypad 0 0" 100 100 100]
  by (simp add: KEYPAD_ADDR_def galaxy_checksum_def)

subsection \<open>Key events after an activity poll\<close>

lemma decode_not_tamper_only:
  "code \<noteq> 0x7F \<Longrightarrow> fst (decode_key_and_tamper code) \<noteq> []"
  by (simp add: decode_label_empty_iff)

lemma mark_panel_rx_fields [simp]:
  "last_cmd (mark_panel_rx s now) = last_cmd s"
  "key_ack_pending (mark_panel_rx s now) = key_ack_pending s"
  "ack_pending_code (mark_panel_rx s now) = ack_pending_code s"
  "keypress_calls (mark_panel_rx s now) = keypress_calls s"
  "input_buffer (mark_panel_rx s now) = input_buffer s"
  "published (mark_panel_rx s now) = published s"
  "timeouts (mark_panel_rx s now) = timeouts s"
  "last_key_name (mark_panel_rx s now) = last_key_name s"
  "last_key_tamper (mark_panel_rx s now) = last_key_tamper s"
  "last_key_ts (mark_panel_rx s now) = last_key_ts s"
  "needs_button_ack (mark_panel_rx s now) = needs_button_ack s"
  "uart_tx (mark_panel_rx s now) = uart_tx s"
  by (simp_all add: mark_panel_rx_def)

lemma update_tamper_state_fields [simp]:
  "last_cmd (update_tamper_state s t) = last_cmd s"
  "key_ack_pending (update_tamper_state s t) = key_ack_pending s"
  "ack_pending_code (update_tamper_state s t) = ack_pending_code s"
  "keypress_calls (update_tamper_state s t) = keypress_calls s"
  "input_buffer (update_tamper_state s t) = input_buffer s"
  "published (update_tamper_state s t) = published s"
  "timeouts (update_tamper_state s t) = timeouts s"
  "last_key_name (update_tamper_state s t) = last_key_name s"
  "last_key_tamper (update_tamper_state s t) = last_key_tamper s"
  "last_key_ts (update_tamper_state s t) = last_key_ts s"
  "needs_button_ack (update_tamper_state s t) = needs_button_ack s"
  "uart_tx (update_tamper_state s t) = uart_tx s"
  by (simp_all add: update_tamper_state_def)

lemma handle_keypress_calls:
  "keypress_calls (handle_keypress s key_name tamper now) = keypress_calls s @ [(key_name, tamper)]"
  by (simp add: handle_keypress_def bump_backlight_def Let_def)

lemma handle_keypress_last_key [simp]:
  "last_key_name (handle_keypress s k t now) = last_key_name s"
  "last_key_tamper (handle_keypress s k t now) = last_key_tamper s"
  "last_key_ts (handle_keypress s k t now) = last_key_ts s"
  "last_cmd (handle_keypress s k t now) = last_cmd s"
  by (simp_all add: handle_keypress_def bump_backlight_def Let_def)

text \<open>
  The F4 handler after an activity poll, on a code other than the sentinel with a good
  checksum: the two early returns are not taken, and the event is forwarded unless it is
  a duplicate by time or by pending acknowledgement.
\<close>

lemma handle_f4_activity_key:
  assumes "last_cmd s = CMD_ACTIVITY_19" and "code \<noteq> 0x7F"
  shows "handle_f4 s code (galaxy_checksum [KEYPAD_ADDR, 0xF4, code]) now_ms now_bl =
     (let key_name = fst (decode_key_and_tamper code);
          tamper = snd (decode_key_and_tamper code);
          s1 = update_tamper_state s tamper
      in (if (key_name = last_key_name s1 \<and> tamper = last_key_tamper s1 \<and>
              now_ms - last_key_ts s1 \<le> KEY_DEDUPE_WINDOW_MS)
             \<or> (key_ack_pending s1 \<and> code = ack_pending_code s1)
          then s1
          else handle_keypress
                 (s1\<lparr>last_key_name := key_name, last_key_tamper := tamper, last_key_ts := now_ms\<rparr>)
                 key_name tamper now_bl)
         \<lparr>needs_button_ack := True, screen_dirty := True,
          key_ack_pending := True, ack_pending_code := code\<rparr>)"
proof -
  have ne: "fst (decode_key_and_tamper code) \<noteq> []"
    using assms(2) by (rule decode_not_tamper_only)
  have lc: "last_cmd (update_tamper_state s (snd (decode_key_and_tamper code))) = CMD_ACTIVITY_19"
    using assms(1) by (simp add: update_tamper_state_def)
  show ?thesis
    unfolding handle_f4_def Let_def
    using ne lc by auto
qed

lemma handle_reply_f4_frame:
  "handle_reply_for_cmd s (f4_frame code) now now_ms now_bl =
     handle_f4 (mark_panel_rx s now) code (galaxy_checksum [KEYPAD_ADDR, 0xF4, code]) now_ms now_bl"
  by (simp add: handle_reply_for_cmd_def mark_panel_rx_def f4_frame_def Let_def)

text \<open>
  C6. A key event with a good checksum that arrives after an activity poll and is not
  the sentinel \<open>0x7F\<close>: when an acknowledgement for the same raw code is pending,
  \<open>handle_keypress_\<close> is not called (and buffer and sink are untouched); and in every
  case, duplicate or not, the handler sets \<open>needs_button_ack_\<close>, \<open>screen_dirty_\<close> and
  \<open>key_ack_pending_\<close>, and stores the code in \<open>ack_pending_code_\<close>.
\<close>

theorem f4_ack_gating:
  assumes "last_cmd s = CMD_ACTIVITY_19" and "code \<noteq> 0x7F"
  shows "let s' = handle_reply_for_cmd s (f4_frame code) now now_ms now_bl
         in (key_ack_pending s \<and> code = ack_pending_code s \<longrightarrow>
               keypress_calls s' = keypress_calls s \<and> input_buffer s' = input_buffer s
               \<and> published s' = published s \<and> timeouts s' = timeouts s)
            \<and> needs_button_ack s' \<and> screen_dirty s' \<and> key_ack_pending s'
            \<and> ack_pending_code s' = code"
  using assms
  by (simp add: handle_reply_f4_frame handle_f4_activity_key Let_def)

theorem f4_ack_gating_witness:
  "keypress_calls
     (handle_reply_for_cmd
        (initial_keypad\<lparr>last_cmd := CMD_ACTIVITY_19, key_ack_pending := True,
                        ack_pending_code := 0x01\<rparr>)
        (f4_frame 0x01) 300 300 300) = []
   \<and> needs_button_ack
     (handle_reply_for_cmd
        (initial_keypad\<lparr>last_cmd := CMD_ACTIVITY_19, key_ack_pending := True,
                        ack_pending_code := 0x01\<rparr>)
        (f4_frame 0x01) 300 300 300)
   \<and> ack_pending_code
     (handle_reply_for_cmd
        (initial_keypad\<lparr>last_cmd := CMD_ACTIVITY_19, key_ack_pending := True,
                        ack_pending_code := 0x01\<rparr>)
        (f4_frame 0x01) 300 300 300) = 0x01"
  using f4_ack_gating
          [of "initial_keypad\<lparr>last_cmd := CMD_ACTIVITY_19, key_ack_pending := True,
                              ack_pending_code := 0x01\<rparr>" "0x01" 300 300 300]
  by (simp add: Let_def initial_keypad_def)

section \<open>Input handling: ENT\<close>

text \<open>
  C9. \<open>handle_keypress_\<close> on \<open>ENT\<close>: with a non-empty buffer and a sink, the buffer is
  published, the buffer is cleared, the screen is dirty and one timeout of 200 ms is
  set whose callback publishes the empty string; with an empty buffer nothing is
  published and no timeout is set, and the screen is dirty all the same.
\<close>

theorem handle_keypress_ENT:
  "let s' = handle_keypress s ''ENT'' tamper now
   in (input_buffer s \<noteq> [] \<and> rx_sens s \<longrightarrow>
         published s' = published s @ [input_buffer s] \<and> input_buffer s' = []
         \<and> screen_dirty s' \<and> timeouts s' = timeouts s @ [(''clear_rx_sens'', 200, [])])
      \<and> (input_buffer s = [] \<longrightarrow>
         published s' = published s \<and> timeouts s' = timeouts s \<and> input_buffer s' = []
         \<and> screen_dirty s')"
  by (simp add: handle_keypress_def bump_backlight_def Let_def)

theorem handle_keypress_ENT_witness:
  "published (handle_keypress (initial_keypad\<lparr>input_buffer := ''1234'', rx_sens := True\<rparr>)
                ''ENT'' False 700) = [''1234'']
   \<and> timeouts (handle_keypress (initial_keypad\<lparr>input_buffer := ''1234'', rx_sens := True\<rparr>)
                ''ENT'' False 700) = [(''clear_rx_sens'', 200, [])]
   \<and> published (handle_keypress (initial_keypad\<lparr>screen_dirty := False\<rparr>) ''ENT'' False 700) = []
   \<and> screen_dirty (handle_keypress (initial_keypad\<lparr>screen_dirty := False\<rparr>) ''ENT'' False 700)"
  using handle_keypress_ENT
          [of "initial_keypad\<lparr>input_buffer := ''1234'', rx_sens := True\<rparr>" False 700]
        handle_keypress_ENT [of "initial_keypad\<lparr>screen_dirty := False\<rparr>" False 700]
  by (simp add: Let_def initial_keypad_def)

section \<open>The key debounce\<close>

lemma handle_reply_key_event:
  assumes "last_cmd s = CMD_ACTIVITY_19" and "code \<noteq> 0x7F"
  shows "handle_reply_for_cmd s (f4_frame code) now now_ms now_bl =
     (let key_name = fst (decode_key_and_tamper code);
          tamper = snd (decode_key_and_tamper code);
          s1 = update_tamper_state (mark_panel_rx s now) tamper
      in (if (key_name = last_key_name s \<and> tamper = last_key_tamper s \<and>
              now_ms - last_key_ts s \<le> KEY_DEDUPE_WINDOW_MS)
             \<or> (key_ack_pending s \<and> code = ack_pending_code s)
          then s1
          else handle_keypress
                 (s1\<lparr>last_key_name := key_name, last_key_tamper := tamper, last_key_ts := now_ms\<rparr>)
                 key_name tamper now_bl)
         \<lparr>needs_button_ack := True, screen_dirty := True,
          key_ack_pending := True, ack_pending_code := code\<rparr>)"
  using assms
  by (simp add: handle_reply_f4_frame handle_f4_activity_key Let_def)

lemma key_event_calls:
  assumes "last_cmd s = CMD_ACTIVITY_19" and "code \<noteq> 0x7F"
  shows "keypress_calls (handle_reply_for_cmd s (f4_frame code) now now_ms now_bl) =
     keypress_calls s @
       (if (decode_key_and_tamper code = (last_key_name s, last_key_tamper s) \<and>
              now_ms - last_key_ts s \<le> KEY_DEDUPE_WINDOW_MS)
           \<or> (key_ack_pending s \<and> code = ack_pending_code s)
        then [] else [decode_key_and_tamper code])"
  using assms
  by (auto simp add: handle_reply_key_event Let_def handle_keypress_calls prod_eq_iff)

lemma key_event_accepted_record:
  assumes "last_cmd s = CMD_ACTIVITY_19" and "code \<noteq> 0x7F"
    and "keypress_calls (handle_reply_for_cmd s (f4_frame code) now now_ms now_bl)
           = keypress_calls s @ [decode_key_and_tamper code]"
  shows "last_key_name (handle_reply_for_cmd s (f4_frame code) now now_ms now_bl)
           = fst (decode_key_and_tamper code)"
    and "last_key_tamper (handle_reply_for_cmd s (f4_frame code) now now_ms now_bl)
           = snd (decode_key_and_tamper code)"
    and "last_key_ts (handle_reply_for_cmd s (f4_frame code) now now_ms now_bl) = now_ms"
  using assms(3)
  by (auto simp add: handle_reply_key_event [OF assms(1,2)] Let_def split: if_splits)

lemma key_event_pending:
  assumes "last_cmd s = CMD_ACTIVITY_19" and "code \<noteq> 0x7F"
  shows "key_ack_pending (handle_reply_for_cmd s (f4_frame code) now now_ms now_bl)"
    and "ack_pending_code (handle_reply_for_cmd s (f4_frame code) now now_ms now_bl) = code"
    and "last_cmd (handle_reply_for_cmd s (f4_frame code) now now_ms now_bl) = CMD_ACTIVITY_19"
  using assms
  by (simp_all add: handle_reply_key_event Let_def)

text \<open>
  C3, as the claim states it, fails in its second half. The key \<open>1\<close> (code \<open>0x01\<close>)
  arrives after an activity poll at 1000 ms and is forwarded; the same frame arrives
  again at 2000 ms, ten windows later, and is not forwarded, because the first event left
  an acknowledgement pending for the code \<open>0x01\<close>: \<open>handle_keypress_\<close> has been called
  once, not twice.
\<close>

theorem key_debounce_counterexample:
  "last_cmd (initial_keypad\<lparr>last_cmd := CMD_ACTIVITY_19\<rparr>) = CMD_ACTIVITY_19
   \<and> decode_key_and_tamper 0x01 = (''1'', False)
   \<and> (2000 :: u32) - 1000 > KEY_DEDUPE_WINDOW_MS
   \<and> keypress_calls
        (handle_reply_for_cmd (initial_keypad\<lparr>last_cmd := CMD_ACTIVITY_19\<rparr>)
           (f4_frame 0x01) 1000 1000 1000) = [(''1'', False)]
   \<and> keypress_calls
        (handle_reply_for_cmd
           (handle_reply_for_cmd (initial_keypad\<lparr>last_cmd := CMD_ACTIVITY_19\<rparr>)
              (f4_frame 0x01) 1000 1000 1000)
           (f4_frame 0x01) 2000 2000 2000) = [(''1'', False)]"
  by (simp add: handle_reply_for_cmd_def handle_f4_def f4_frame_def initial_keypad_def
      handle_keypress_def bump_backlight_def update_tamper_state_def isdigit_def
      decode_key_and_tamper_def galaxy_checksum_def KEYPAD_ADDR_def KEY_DEDUPE_WINDOW_MS_def
      Let_def)

text \<open>
  C3, amended. Two key events after activity polls that decode to the same label and
  tamper flag, the first forwarded to \<open>handle_keypress_\<close> at time \<open>t1\<close>, and no other
  key forwarded before the second arrives at time \<open>t2\<close> in state \<open>s2\<close>. Within the
  dedupe window (\<open>t2 - t1 \<le> 100\<close>, in 32-bit arithmetic) the second is not forwarded.
  Beyond the window it is forwarded exactly when no acknowledgement for its raw code is
  pending in \<open>s2\<close>. Right after the first event an acknowledgement for its code is pending.
\<close>

theorem key_debounce:
  assumes "last_cmd s = CMD_ACTIVITY_19" and "c1 \<noteq> 0x7F" and "c2 \<noteq> 0x7F"
    and "decode_key_and_tamper c2 = decode_key_and_tamper c1"
    and "s1 = handle_reply_for_cmd s (f4_frame c1) n1 t1 b1"
    and "keypress_calls s1 = keypress_calls s @ [decode_key_and_tamper c1]"
    and "last_cmd s2 = CMD_ACTIVITY_19"
    and "last_key_name s2 = last_key_name s1" and "last_key_tamper s2 = last_key_tamper s1"
    and "last_key_ts s2 = last_key_ts s1"
  shows "keypress_calls (handle_reply_for_cmd s2 (f4_frame c2) n2 t2 b2) =
           keypress_calls s2 @
             (if t2 - t1 \<le> KEY_DEDUPE_WINDOW_MS \<or> (key_ack_pending s2 \<and> c2 = ack_pending_code s2)
              then [] else [decode_key_and_tamper c1])
         \<and> key_ack_pending s1 \<and> ack_pending_code s1 = c1 \<and> last_cmd s1 = CMD_ACTIVITY_19"
proof -
  have acc: "keypress_calls (handle_reply_for_cmd s (f4_frame c1) n1 t1 b1)
               = keypress_calls s @ [decode_key_and_tamper c1]"
    using assms(5,6) by simp
  note rec = key_event_accepted_record [OF assms(1,2) acc]
  have last: "last_key_name s2 = fst (decode_key_and_tamper c1)"
    "last_key_tamper s2 = snd (decode_key_and_tamper c1)" "last_key_ts s2 = t1"
    using rec assms(5,8,9,10) by simp_all
  have same: "decode_key_and_tamper c2 = (last_key_name s2, last_key_tamper s2)"
    using last assms(4) by (simp add: prod_eq_iff)
  have "keypress_calls (handle_reply_for_cmd s2 (f4_frame c2) n2 t2 b2) =
           keypress_calls s2 @
             (if t2 - t1 \<le> KEY_DEDUPE_WINDOW_MS \<or> (key_ack_pending s2 \<and> c2 = ack_pending_code s2)
              then [] else [decode_key_and_tamper c1])"
    using key_event_calls [OF assms(7) assms(3), of n2 t2 b2] same last(3) assms(4) by simp
  then show ?thesis
    using key_event_pending [OF assms(1,2), of n1 t1 b1] assms(5) by simp
qed

theorem key_debounce_witness:
  "keypress_calls
     (handle_reply_for_cmd
        (handle_reply_for_cmd (initial_keypad\<lparr>last_cmd := CMD_ACTIVITY_19\<rparr>)
           (f4_frame 0x01) 1000 1000 1000)
        (f4_frame 0x11) 2000 2000 2000) = [(''1'', False), (''1'', False)]
   \<and> keypress_calls
     (handle_reply_for_cmd
        (handle_reply_for_cmd (initial_keypad\<lparr>last_cmd := CMD_ACTIVITY_19\<rparr>)
           (f4_frame 0x01) 1000 1000 1000)
        (f4_frame 0x11) 1050 1050 1050) = [(''1'', False)]"
  using key_debounce
          [of "initial_keypad\<lparr>last_cmd := CMD_ACTIVITY_19\<rparr>" "0x01" "0x11"
              "handle_reply_for_cmd (initial_keypad\<lparr>last_cmd := CMD_ACTIVITY_19\<rparr>)
                 (f4_frame 0x01) 1000 1000 1000" 1000 1000 1000
              "handle_reply_for_cmd (initial_keypad\<lparr>last_cmd := CMD_ACTIVITY_19\<rparr>)
                 (f4_frame 0x01) 1000 1000 1000" 2000 2000 2000]
        key_debounce
          [of "initial_keypad\<lparr>last_cmd := CMD_ACTIVITY_19\<rparr>" "0x01" "0x11"
              "handle_reply_for_cmd (initial_keypad\<lparr>last_cmd := CMD_ACTIVITY_19\<rparr>)
                 (f4_frame 0x01) 1000 1000 1000" 1000 1000 1000
              "handle_reply_for_cmd (initial_keypad\<lparr>last_cmd := CMD_ACTIVITY_19\<rparr>)
                 (f4_frame 0x01) 1000 1000 1000" 1050 1050 1050]
  by (simp add: handle_reply_for_cmd_def handle_f4_def f4_frame_def initial_keypad_def
      handle_keypress_def bump_backlight_def update_tamper_state_def isdigit_def
      decode_key_and_tamper_def galaxy_checksum_def KEYPAD_ADDR_def KEY_DEDUPE_WINDOW_MS_def
      Let_def)

section \<open>Rejected screen frames\<close>

lemma handle_reply_f2_after_screen:
  "last_cmd s = CMD_SCREEN_07 \<Longrightarrow>
   handle_reply_for_cmd s (KEYPAD_ADDR # 0xF2 # rest) now now_ms now_bl
     = (mark_panel_rx s now)\<lparr>need_reinit_after_f2 := True, screen_dirty := True\<rparr>"
  by (simp add: handle_reply_for_cmd_def mark_panel_rx_def Let_def)

lemma mark_panel_rx_more_fields [simp]:
  "device_id (mark_panel_rx s now) = device_id s"
  "backlight_on (mark_panel_rx s now) = backlight_on s"
  "awaiting_reply (mark_panel_rx s now) = awaiting_reply s"
  by (simp_all add: mark_panel_rx_def)

lemma loop_reinit_tick:
  "need_reinit_after_f2 s \<Longrightarrow> \<not> awaiting_reply s \<Longrightarrow>
   loop s now now_bl avail rnow rnow_ms rnow_bl = reinit_after_f2 (panel_timeout s now) now"
  by (simp add: loop_def loop_idle_def panel_timeout_def Let_def)

lemma loop_f2_tick:
  assumes "last_cmd s = CMD_SCREEN_07" and "awaiting_reply s"
    and "REPLY_WAIT_MS \<le> now - last_tx_time s"
    and "rx_buf s @ avail = KEYPAD_ADDR # 0xF2 # rest"
  shows "need_reinit_after_f2 (loop s now now_bl avail rnow rnow_ms rnow_bl)"
    and "screen_dirty (loop s now now_bl avail rnow rnow_ms rnow_bl)"
    and "\<not> awaiting_reply (loop s now now_bl avail rnow rnow_ms rnow_bl)"
    and "key_ack_pending (loop s now now_bl avail rnow rnow_ms rnow_bl) = key_ack_pending s"
    and "ack_pending_code (loop s now now_bl avail rnow rnow_ms rnow_bl) = ack_pending_code s"
    and "needs_button_ack (loop s now now_bl avail rnow rnow_ms rnow_bl) = needs_button_ack s"
    and "uart_tx (loop s now now_bl avail rnow rnow_ms rnow_bl) = uart_tx s"
    and "device_id (loop s now now_bl avail rnow rnow_ms rnow_bl) = device_id s"
proof -
  have ne: "\<not> (rx_buf s = [] \<and> avail = [])"
    using assms(4) by auto
  show "need_reinit_after_f2 (loop s now now_bl avail rnow rnow_ms rnow_bl)"
    and "screen_dirty (loop s now now_bl avail rnow rnow_ms rnow_bl)"
    and "\<not> awaiting_reply (loop s now now_bl avail rnow rnow_ms rnow_bl)"
    and "key_ack_pending (loop s now now_bl avail rnow rnow_ms rnow_bl) = key_ack_pending s"
    and "ack_pending_code (loop s now now_bl avail rnow rnow_ms rnow_bl) = ack_pending_code s"
    and "needs_button_ack (loop s now now_bl avail rnow rnow_ms rnow_bl) = needs_button_ack s"
    and "uart_tx (loop s now now_bl avail rnow rnow_ms rnow_bl) = uart_tx s"
    and "device_id (loop s now now_bl avail rnow rnow_ms rnow_bl) = device_id s"
    using assms ne
    by (simp_all add: loop_def panel_timeout_def process_reply_def backlight_timeout_def Let_def
        handle_reply_f2_after_screen)
qed

text \<open>
  C5. A frame that starts with the keypad address and \<open>0xF2\<close>, handled while the last
  command is the screen update, sets \<open>need_reinit_after_f2_\<close> and \<open>screen_dirty_\<close> and
  leaves \<open>key_ack_pending_\<close>, \<open>ack_pending_code_\<close> and \<open>needs_button_ack_\<close> alone. In
  terms of ticks: when \<open>loop\<close> hands such a frame to the handler (a reply is awaited, the
  reply window is over, the frame is in the receive buffer), that tick sends nothing and
  ends idle, and the next call of \<open>loop\<close>, whatever its inputs, sends
  \<open>device_id 00 0F\<close> with its checksum and nothing else, sets the acknowledgement toggle
  to \<open>0x02\<close> and the sequence flag to \<open>0x00\<close>, clears \<open>need_reinit_after_f2_\<close> and
  leaves the screen dirty, so the screen update can only follow it.
\<close>

theorem f2_after_screen_forces_reinit:
  assumes "last_cmd s = CMD_SCREEN_07"
  shows "let h = handle_reply_for_cmd s (KEYPAD_ADDR # 0xF2 # rest) rnow rnow_ms rnow_bl;
             s1 = loop s now now_bl avail rnow rnow_ms rnow_bl;
             s2 = loop s1 now2 now_bl2 avail2 rnow2 rnow_ms2 rnow_bl2
         in need_reinit_after_f2 h \<and> screen_dirty h
            \<and> key_ack_pending h = key_ack_pending s \<and> ack_pending_code h = ack_pending_code s
            \<and> needs_button_ack h = needs_button_ack s
            \<and> (awaiting_reply s \<and> REPLY_WAIT_MS \<le> now - last_tx_time s
                \<and> rx_buf s @ avail = KEYPAD_ADDR # 0xF2 # rest \<longrightarrow>
                  uart_tx s1 = uart_tx s \<and> \<not> awaiting_reply s1
                  \<and> need_reinit_after_f2 s1 \<and> screen_dirty s1
                  \<and> key_ack_pending s1 = key_ack_pending s
                  \<and> ack_pending_code s1 = ack_pending_code s
                  \<and> uart_tx s2 = uart_tx s
                       @ [[device_id s, 0x00, 0x0F, galaxy_checksum [device_id s, 0x00, 0x0F]]]
                  \<and> last_cmd s2 = CMD_POLL_00 \<and> awaiting_reply s2
                  \<and> ack_toggle s2 = 0x02 \<and> screen_seq_flag s2 = 0x00
                  \<and> \<not> need_reinit_after_f2 s2 \<and> screen_dirty s2
                  \<and> key_ack_pending s2 = key_ack_pending s
                  \<and> ack_pending_code s2 = ack_pending_code s)"
proof -
  have handler:
    "need_reinit_after_f2 (handle_reply_for_cmd s (KEYPAD_ADDR # 0xF2 # rest) rnow rnow_ms rnow_bl)
     \<and> screen_dirty (handle_reply_for_cmd s (KEYPAD_ADDR # 0xF2 # rest) rnow rnow_ms rnow_bl)
     \<and> key_ack_pending (handle_reply_for_cmd s (KEYPAD_ADDR # 0xF2 # rest) rnow rnow_ms rnow_bl)
         = key_ack_pending s
     \<and> ack_pending_code (handle_reply_for_cmd s (KEYPAD_ADDR # 0xF2 # rest) rnow rnow_ms rnow_bl)
         = ack_pending_code s
     \<and> needs_button_ack (handle_reply_for_cmd s (KEYPAD_ADDR # 0xF2 # rest) rnow rnow_ms rnow_bl)
         = needs_button_ack s"
    using assms by (simp add: handle_reply_f2_after_screen)
  have ticks: "uart_tx (loop s now now_bl avail rnow rnow_ms rnow_bl) = uart_tx s
      \<and> \<not> awaiting_reply (loop s now now_bl avail rnow rnow_ms rnow_bl)
      \<and> need_reinit_after_f2 (loop s now now_bl avail rnow rnow_ms rnow_bl)
      \<and> screen_dirty (loop s now now_bl avail rnow rnow_ms rnow_bl)
      \<and> key_ack_pending (loop s now now_bl avail rnow rnow_ms rnow_bl) = key_ack_pending s
      \<and> ack_pending_code (loop s now now_bl avail rnow rnow_ms rnow_bl) = ack_pending_code s
      \<and> uart_tx (loop (loop s now now_bl avail rnow rnow_ms rnow_bl)
                   now2 now_bl2 avail2 rnow2 rnow_ms2 rnow_bl2)
          = uart_tx s @ [[device_id s, 0x00, 0x0F, galaxy_checksum [device_id s, 0x00, 0x0F]]]
      \<and> last_cmd (loop (loop s now now_bl avail rnow rnow_ms rnow_bl)
                   now2 now_bl2 avail2 rnow2 rnow_ms2 rnow_bl2) = CMD_POLL_00
      \<and> awaiting_reply (loop (loop s now now_bl avail rnow rnow_ms rnow_bl)
                   now2 now_bl2 avail2 rnow2 rnow_ms2 rnow_bl2)
      \<and> ack_toggle (loop (loop s now now_bl avail rnow rnow_ms rnow_bl)
                   now2 now_bl2 avail2 rnow2 rnow_ms2 rnow_bl2) = 0x02
      \<and> screen_seq_flag (loop (loop s now now_bl avail rnow rnow_ms rnow_bl)
                   now2 now_bl2 avail2 rnow2 rnow_ms2 rnow_bl2) = 0x00
      \<and> \<not> need_reinit_after_f2 (loop (loop s now now_bl avail rnow rnow_ms rnow_bl)
                   now2 now_bl2 avail2 rnow2 rnow_ms2 rnow_bl2)
      \<and> screen_dirty (loop (loop s now now_bl avail rnow rnow_ms rnow_bl)
                   now2 now_bl2 avail2 rnow2 rnow_ms2 rnow_bl2)
      \<and> key_ack_pending (loop (loop s now now_bl avail rnow rnow_ms rnow_bl)
                   now2 now_bl2 avail2 rnow2 rnow_ms2 rnow_bl2) = key_ack_pending s
      \<and> ack_pending_code (loop (loop s now now_bl avail rnow rnow_ms rnow_bl)
                   now2 now_bl2 avail2 rnow2 rnow_ms2 rnow_bl2) = ack_pending_code s"
    if t: "awaiting_reply s" "REPLY_WAIT_MS \<le> now - last_tx_time s"
      "rx_buf s @ avail = KEYPAD_ADDR # 0xF2 # rest"
  proof -
    note first = loop_f2_tick [OF assms t, of now_bl rnow rnow_ms rnow_bl]
    have second: "loop (loop s now now_bl avail rnow rnow_ms rnow_bl)
                    now2 now_bl2 avail2 rnow2 rnow_ms2 rnow_bl2
        = reinit_after_f2 (panel_timeout (loop s now now_bl avail rnow rnow_ms rnow_bl) now2) now2"
      using first(1) first(3) by (rule loop_reinit_tick)
    show ?thesis
      unfolding second
      using first by (simp add: reinit_after_f2_def send_frame_def panel_timeout_def)
  qed
  show ?thesis
    unfolding Let_def using handler ticks by blast
qed

theorem f2_after_screen_forces_reinit_witness:
  "uart_tx
     (loop
        (loop (initial_keypad\<lparr>last_cmd := CMD_SCREEN_07, awaiting_reply := True,
                               sent_second_init := True, key_ack_pending := True,
                               ack_pending_code := 0x01\<rparr>)
           100 100 [0x11, 0xF2, 0xAE] 100 100 100)
        110 110 [] 110 110 110)
     = [[0x20, 0x00, 0x0F, 0xD9]]
   \<and> key_ack_pending
     (loop
        (loop (initial_keypad\<lparr>last_cmd := CMD_SCREEN_07, awaiting_reply := True,
                               sent_second_init := True, key_ack_pending := True,
                               ack_pending_code := 0x01\<rparr>)
           100 100 [0x11, 0xF2, 0xAE] 100 100 100)
        110 110 [] 110 110 110)"
  using f2_after_screen_forces_reinit
          [of "initial_keypad\<lparr>last_cmd := CMD_SCREEN_07, awaiting_reply := True,
                               sent_second_init := True, key_ack_pending := True,
                               ack_pending_code := 0x01\<rparr>"
              "[0xAE]" 100 100 100 100 100 "[0x11, 0xF2, 0xAE]" 110 110 "[]" 110 110 110]
  by (simp add: Let_def initial_keypad_def KEYPAD_ADDR_def REPLY_WAIT_MS_def galaxy_checksum_def)

section \<open>The command scheduler\<close>

lemma bump_backlight_fields [simp]:
  "uart_tx (bump_backlight s now) = uart_tx s"
  "screen_seq_flag (bump_backlight s now) = screen_seq_flag s"
  "ack_toggle (bump_backlight s now) = ack_toggle s"
  by (simp_all add: bump_backlight_def Let_def)

lemma handle_keypress_fields [simp]:
  "uart_tx (handle_keypress s k t now) = uart_tx s"
  "screen_seq_flag (handle_keypress s k t now) = screen_seq_flag s"
  "ack_toggle (handle_keypress s k t now) = ack_toggle s"
  by (simp_all add: handle_keypress_def bump_backlight_def Let_def)

lemma handle_f4_fields [simp]:
  "uart_tx (handle_f4 s code cs now_ms now_bl) = uart_tx s"
  "screen_seq_flag (handle_f4 s code cs now_ms now_bl) = screen_seq_flag s"
  "ack_toggle (handle_f4 s code cs now_ms now_bl) = ack_toggle s"
  by (simp_all add: handle_f4_def update_tamper_state_def Let_def)

lemma handle_reply_fields [simp]:
  "uart_tx (handle_reply_for_cmd s bytes now now_ms now_bl) = uart_tx s"
  "screen_seq_flag (handle_reply_for_cmd s bytes now now_ms now_bl) = screen_seq_flag s"
  "ack_toggle (handle_reply_for_cmd s bytes now now_ms now_bl) = ack_toggle s"
  by (simp_all add: handle_reply_for_cmd_def update_tamper_state_def Let_def)

lemma panel_timeout_fields [simp]:
  "uart_tx (panel_timeout s now) = uart_tx s"
  "screen_seq_flag (panel_timeout s now) = screen_seq_flag s"
  "ack_toggle (panel_timeout s now) = ack_toggle s"
  "awaiting_reply (panel_timeout s now) = awaiting_reply s"
  by (simp_all add: panel_timeout_def)

lemma process_reply_fields [simp]:
  "uart_tx (process_reply s now avail rnow rnow_ms rnow_bl) = uart_tx s"
  "screen_seq_flag (process_reply s now avail rnow rnow_ms rnow_bl) = screen_seq_flag s"
  "ack_toggle (process_reply s now avail rnow rnow_ms rnow_bl) = ack_toggle s"
  by (simp_all add: process_reply_def Let_def)

lemma backlight_timeout_fields [simp]:
  "uart_tx (backlight_timeout s now) = uart_tx s"
  "screen_seq_flag (backlight_timeout s now) = screen_seq_flag s"
  "ack_toggle (backlight_timeout s now) = ack_toggle s"
  by (simp_all add: backlight_timeout_def Let_def)

lemma build_screen_frame_state:
  "snd (build_screen_frame s) =
     s\<lparr>screen_seq_flag := (if screen_seq_flag s = 0x00 then 0x80 else 0x00),
       ack_toggle := (if needs_button_ack s then (if ack_toggle s = 0x00 then 0x02 else 0x00)
                      else ack_toggle s),
       needs_button_ack := False\<rparr>"
  by (simp add: build_screen_frame_def Let_def)

lemma build_screen_frame_bit7:
  "ack_toggle s \<in> {0x00, 0x02} \<Longrightarrow>
   bit (fst (build_screen_frame s) ! 2) 7 = (screen_seq_flag s = 0x00)"
  by (auto simp add: build_screen_frame_def Let_def bit_or_iff)

lemma build_screen_frame_uart [simp]:
  "uart_tx (snd (build_screen_frame s)) = uart_tx s"
  "device_id (snd (build_screen_frame s)) = device_id s"
  by (simp_all add: build_screen_frame_state)

lemma send_cmd_uart:
  "uart_tx (send_cmd s cmd now now_bl) = uart_tx s @
     (case cmd of
        CMD_NONE \<Rightarrow> []
      | CMD_POLL_00 \<Rightarrow> [[device_id s, 0x00, 0x0F, galaxy_checksum [device_id s, 0x00, 0x0F]]]
      | CMD_ACTIVITY_19 \<Rightarrow> [spec_payload s ActivityPoll @ [galaxy_checksum (spec_payload s ActivityPoll)]]
      | CMD_SCREEN_07 \<Rightarrow> [spec_payload s ScreenUpdate @ [galaxy_checksum (spec_payload s ScreenUpdate)]]
      | CMD_BEEP_0C \<Rightarrow> [spec_payload s BeepConfig @ [galaxy_checksum (spec_payload s BeepConfig)]]
      | CMD_BACKLIGHT_0D \<Rightarrow> [spec_payload s BacklightSet @ [galaxy_checksum (spec_payload s BacklightSet)]])"
  by (cases cmd) (simp_all add: send_cmd_def send_frame_def spec_payload_def Let_def)

lemma loop_idle_sends:
  "uart_tx (snd (loop_idle s now now_bl)) = uart_tx s @ spec_frames s now"
proof (cases "need_reinit_after_f2 s")
  case True
  then show ?thesis
    by (simp add: loop_idle_def reinit_after_f2_def send_frame_def spec_frames_def
        spec_schedule_def spec_payload_def)
next
  case False
  then show ?thesis
    by (simp add: loop_idle_def send_cmd_uart choose_cmd_def spec_frames_def spec_schedule_def
        spec_payload_def Let_def
        INIT_POLL_SECOND_MS_def INIT_POLL_INTERVAL_MS_def ACTIVITY_POLL_INTERVAL_MS_def)
qed

lemma spec_frames_Nil_iff: "spec_frames s now = [] \<longleftrightarrow> spec_schedule s now = None"
  by (simp add: spec_frames_def split: option.splits)

lemma loop_idle_marks:
  assumes "spec_schedule s now \<noteq> None"
  shows "awaiting_reply (snd (loop_idle s now now_bl))"
    and "last_tx_time (snd (loop_idle s now now_bl)) = now"
    and "rx_buf (snd (loop_idle s now now_bl)) = []"
proof -
  have "need_reinit_after_f2 s \<or> fst (choose_cmd s now) \<noteq> CMD_NONE"
    using assms
    by (simp add: choose_cmd_def spec_schedule_def
        INIT_POLL_SECOND_MS_def INIT_POLL_INTERVAL_MS_def ACTIVITY_POLL_INTERVAL_MS_def
        split: if_splits)
  then show "awaiting_reply (snd (loop_idle s now now_bl))"
    and "last_tx_time (snd (loop_idle s now now_bl)) = now"
    and "rx_buf (snd (loop_idle s now now_bl)) = []"
    by (auto simp add: loop_idle_def reinit_after_f2_def send_frame_def Let_def)
qed

lemma loop_idle_nothing:
  assumes "spec_schedule s now = None"
  shows "snd (loop_idle s now now_bl) = s"
proof -
  have "\<not> need_reinit_after_f2 s \<and> choose_cmd s now = (CMD_NONE, s)"
    using assms
    by (simp add: choose_cmd_def spec_schedule_def
        INIT_POLL_SECOND_MS_def INIT_POLL_INTERVAL_MS_def ACTIVITY_POLL_INTERVAL_MS_def
        split: if_splits)
  then show ?thesis
    by (simp add: loop_idle_def)
qed

lemma spec_frames_at_most_one: "length (spec_frames s now) \<le> 1"
  by (simp add: spec_frames_def split: option.splits)

lemma build_screen_frame_offline [simp]:
  "fst (build_screen_frame (s\<lparr>panel_online := b\<rparr>)) = fst (build_screen_frame s)"
  by (simp add: build_screen_frame_def Let_def)

lemma spec_payload_offline [simp]:
  "spec_payload (s\<lparr>panel_online := b\<rparr>) a = spec_payload s a"
  by (cases a) (simp_all add: spec_payload_def)

lemma spec_schedule_offline [simp]:
  "spec_schedule (s\<lparr>panel_online := b\<rparr>) now = spec_schedule s now"
  by (simp add: spec_schedule_def)

lemma spec_frames_panel_timeout [simp]:
  "spec_frames (panel_timeout s t) now = spec_frames s now"
  by (simp add: spec_frames_def panel_timeout_def split: option.splits)

lemma loop_sends:
  "uart_tx (loop s now now_bl avail rnow rnow_ms rnow_bl)
     = uart_tx s @ (if awaiting_reply s then [] else spec_frames s now)"
  by (simp add: loop_def Let_def loop_idle_sends)

text \<open>
  C1. The idle block of \<open>loop\<close>, which runs only when no reply is awaited, writes to
  the UART exactly the frames of \<open>spec_frames\<close>: none, or the one frame of the first
  condition that holds in the priority order forced re-init, second init poll, screen
  update, periodic init poll, beep configuration, backlight command, activity poll. When
  a frame is sent, \<open>awaiting_reply_\<close> is set, \<open>last_tx_time_\<close> is the current time
  and \<open>rx_buf_\<close> is empty; when none is sent the state is unchanged. The rest of the
  tick writes nothing: a whole call of \<open>loop\<close> that starts idle sends these frames and
  no other.
\<close>

theorem scheduler_priority_order:
  "uart_tx (snd (loop_idle s now now_bl)) = uart_tx s @ spec_frames s now
   \<and> length (spec_frames s now) \<le> 1
   \<and> (spec_frames s now \<noteq> [] \<longrightarrow>
        awaiting_reply (snd (loop_idle s now now_bl))
        \<and> last_tx_time (snd (loop_idle s now now_bl)) = now
        \<and> rx_buf (snd (loop_idle s now now_bl)) = [])
   \<and> (spec_frames s now = [] \<longrightarrow> snd (loop_idle s now now_bl) = s)
   \<and> (\<not> awaiting_reply s \<longrightarrow>
        uart_tx (loop s now now_bl avail rnow rnow_ms rnow_bl) = uart_tx s @ spec_frames s now)"
  using loop_idle_sends [of s now now_bl] spec_frames_at_most_one [of s now]
    loop_idle_marks [of s now now_bl] loop_idle_nothing [of s now now_bl]
    loop_sends [of s now now_bl avail rnow rnow_ms rnow_bl]
  by (simp add: spec_frames_Nil_iff)


theorem scheduler_priority_order_witness:
  "spec_schedule ((setup_keypad initial_keypad 0 0)\<lparr>awaiting_reply := False\<rparr>) 150 = Some ActivityPoll
   \<and> uart_tx (snd (loop_idle ((setup_keypad initial_keypad 0 0)\<lparr>awaiting_reply := False\<rparr>) 150 150))
       = [[0x20, 0x00, 0x0E, 0xD8], [0x20, 0x19, 0x01, 0xE4]]
   \<and> awaiting_reply (snd (loop_idle ((setup_keypad initial_keypad 0 0)\<lparr>awaiting_reply := False\<rparr>) 150 150))
   \<and> spec_schedule ((setup_keypad initial_keypad 0 0)\<lparr>awaiting_reply := False\<rparr>) 120 = None
   \<and> snd (loop_idle ((setup_keypad initial_keypad 0 0)\<lparr>awaiting_reply := False\<rparr>) 120 120)
       = (setup_keypad initial_keypad 0 0)\<lparr>awaiting_reply := False\<rparr>"
  using scheduler_priority_order
          [of "(setup_keypad initial_keypad 0 0)\<lparr>awaiting_reply := False\<rparr>" 150 150 "[]" 150 150 150]
        scheduler_priority_order
          [of "(setup_keypad initial_keypad 0 0)\<lparr>awaiting_reply := False\<rparr>" 120 120 "[]" 120 120 120]
  by (simp add: spec_frames_def spec_schedule_def spec_payload_def setup_keypad_def
      initial_keypad_def parse_display_text_def send_frame_def galaxy_checksum_def Let_def)

section \<open>The screen frame toggles\<close>

text \<open>
  \<open>toggles_ok\<close> holds in the initial state and is kept by \<open>setup\<close>, \<open>loop\<close> and the
  control functions, so it holds whenever \<open>build_screen_frame_\<close> is called.
\<close>

lemma toggles_ok_initial: "toggles_ok initial_keypad"
  by (simp add: toggles_ok_def initial_keypad_def)

lemma toggles_ok_cong:
  "screen_seq_flag s' = screen_seq_flag s \<Longrightarrow> ack_toggle s' = ack_toggle s \<Longrightarrow>
   toggles_ok s' = toggles_ok s"
  by (simp add: toggles_ok_def)

lemma toggles_ok_build: "toggles_ok s \<Longrightarrow> toggles_ok (snd (build_screen_frame s))"
  by (auto simp add: toggles_ok_def build_screen_frame_state)

lemma toggles_ok_send_cmd: "toggles_ok s \<Longrightarrow> toggles_ok (send_cmd s cmd now now_bl)"
proof (cases cmd)
  case CMD_SCREEN_07
  assume "toggles_ok s"
  then have "toggles_ok (snd (build_screen_frame s))"
    by (rule toggles_ok_build)
  then show ?thesis
    using CMD_SCREEN_07 by (simp add: send_cmd_def send_frame_def Let_def toggles_ok_def)
qed (simp_all add: send_cmd_def send_frame_def Let_def toggles_ok_def)

lemma toggles_ok_choose: "toggles_ok s \<Longrightarrow> toggles_ok (snd (choose_cmd s now))"
  by (simp add: choose_cmd_def toggles_ok_def)

lemma toggles_ok_loop_idle: "toggles_ok s \<Longrightarrow> toggles_ok (snd (loop_idle s now now_bl))"
proof -
  assume ok: "toggles_ok s"
  have "toggles_ok (send_cmd (snd (choose_cmd s now)) (fst (choose_cmd s now)) now now_bl)"
    using ok by (intro toggles_ok_send_cmd toggles_ok_choose)
  then have "toggles_ok
      ((send_cmd (snd (choose_cmd s now)) (fst (choose_cmd s now)) now now_bl)
         \<lparr>last_cmd := fst (choose_cmd s now), awaiting_reply := True,
           last_tx_time := now, rx_buf := []\<rparr>)"
    by (simp add: toggles_ok_def)
  then show ?thesis
    using toggles_ok_choose [OF ok, of now]
    by (simp add: loop_idle_def Let_def reinit_after_f2_def send_frame_def toggles_ok_def)
qed

lemma toggles_ok_loop:
  "toggles_ok s \<Longrightarrow> toggles_ok (loop s now now_bl avail rnow rnow_ms rnow_bl)"
proof -
  assume ok: "toggles_ok s"
  have p: "toggles_ok (panel_timeout s now)"
    using ok by (simp add: toggles_ok_def)
  have i: "toggles_ok (snd (loop_idle (panel_timeout s now) now now_bl))"
    using p by (rule toggles_ok_loop_idle)
  show ?thesis
    using p i by (simp add: loop_def Let_def toggles_ok_def)
qed

lemma toggles_ok_setup: "toggles_ok s \<Longrightarrow> toggles_ok (setup_keypad s now_bl now)"
  by (simp add: setup_keypad_def parse_display_text_def send_frame_def toggles_ok_def Let_def)

lemma toggles_ok_set_display_text: "toggles_ok s \<Longrightarrow> toggles_ok (set_display_text s text now)"
  by (simp add: set_display_text_def parse_display_text_def toggles_ok_def Let_def)

lemma toggles_ok_set_display_text_nobl:
  "toggles_ok s \<Longrightarrow> toggles_ok (set_display_text_nobl s text)"
  by (simp add: set_display_text_nobl_def parse_display_text_def toggles_ok_def Let_def)

lemma toggles_ok_set_beep_enabled:
  "toggles_ok s \<Longrightarrow> toggles_ok (set_beep_enabled s enabled period quiet)"
  by (simp add: set_beep_enabled_def toggles_ok_def)

lemma bit7_seq_flag: "toggles_ok s \<Longrightarrow> bit (screen_seq_flag s) 7 = (screen_seq_flag s \<noteq> 0x00)"
  by (auto simp add: toggles_ok_def)

lemma build_screen_frames_bit7:
  "toggles_ok s \<Longrightarrow>
   map (\<lambda>f. bit (f ! 2) 7) (build_screen_frames s calls)
     = alternating (bit (screen_seq_flag s) 7) (length calls)"
proof (induction calls arbitrary: s)
  case Nil
  show ?case by simp
next
  case (Cons c calls)
  obtain line1 line2 input owe where c: "c = (line1, line2, input, owe)"
    by (cases c) auto
  define s0 where "s0 = s\<lparr>display_line1 := line1, display_line2 := line2,
                           input_buffer := input, needs_button_ack := owe\<rparr>"
  have ok0: "toggles_ok s0"
    using Cons.prems by (simp add: s0_def toggles_ok_def)
  have seq0: "screen_seq_flag s0 = screen_seq_flag s"
    by (simp add: s0_def)
  have ok1: "toggles_ok (snd (build_screen_frame s0))"
    using ok0 by (rule toggles_ok_build)
  have head: "bit (fst (build_screen_frame s0) ! 2) 7 = (\<not> bit (screen_seq_flag s) 7)"
    using ok0 build_screen_frame_bit7 [of s0] bit7_seq_flag [OF ok0]
    by (simp add: toggles_ok_def seq0)
  have next_flag: "bit (screen_seq_flag (snd (build_screen_frame s0))) 7
                     = (\<not> bit (screen_seq_flag s) 7)"
    using bit7_seq_flag [OF ok0] by (simp add: build_screen_frame_state seq0)
  show ?case
    using Cons.IH [OF ok1] head next_flag
    by (simp add: c s0_def [symmetric] Let_def)
qed

text \<open>
  C4. In any number of consecutive calls of \<open>build_screen_frame_\<close>, whatever the display
  lines, the input buffer and the owed-acknowledgement flag are at each call, bit 7 of the
  modifier byte (the third byte of the frame) alternates: in the first frame it is the
  opposite of bit 7 of the sequence flag before the call, in every later frame the
  opposite of the frame before. After a call the sequence flag carries the bit just sent.
  The acknowledgement toggle has its bit \<open>0x02\<close> flipped by a call exactly when the
  owed-acknowledgement flag was set, and the flag is clear after every call.
\<close>

theorem screen_sequence_bit_alternates:
  assumes "toggles_ok s"
  shows "map (\<lambda>f. bit (f ! 2) 7) (build_screen_frames s calls)
           = alternating (bit (screen_seq_flag s) 7) (length calls)
         \<and> bit (fst (build_screen_frame s) ! 2) 7 = (\<not> bit (screen_seq_flag s) 7)
         \<and> bit (screen_seq_flag (snd (build_screen_frame s))) 7
             = bit (fst (build_screen_frame s) ! 2) 7
         \<and> ack_toggle (snd (build_screen_frame s))
             = (if needs_button_ack s then ack_toggle s XOR 0x02 else ack_toggle s)
         \<and> \<not> needs_button_ack (snd (build_screen_frame s))
         \<and> toggles_ok (snd (build_screen_frame s))"
proof -
  have seq: "map (\<lambda>f. bit (f ! 2) 7) (build_screen_frames s calls)
               = alternating (bit (screen_seq_flag s) 7) (length calls)"
    using assms by (rule build_screen_frames_bit7)
  have one: "bit (fst (build_screen_frame s) ! 2) 7 = (\<not> bit (screen_seq_flag s) 7)"
    using assms build_screen_frame_bit7 [of s] bit7_seq_flag [OF assms]
    by (simp add: toggles_ok_def)
  have flag: "bit (screen_seq_flag (snd (build_screen_frame s))) 7
                = bit (fst (build_screen_frame s) ! 2) 7"
    using one bit7_seq_flag [OF assms] by (simp add: build_screen_frame_state)
  have ack: "ack_toggle (snd (build_screen_frame s))
               = (if needs_button_ack s then ack_toggle s XOR 0x02 else ack_toggle s)"
    using assms by (auto simp add: build_screen_frame_state toggles_ok_def)
  have owe: "\<not> needs_button_ack (snd (build_screen_frame s))"
    by (simp add: build_screen_frame_state)
  show ?thesis
    using seq one flag ack owe toggles_ok_build [OF assms] by simp
qed

theorem screen_sequence_bit_alternates_witness:
  "map (\<lambda>f. bit (f ! 2) 7)
     (build_screen_frames initial_keypad
        [(''KITCHEN'', ''Disarmed'', [], False), (''KITCHEN'', ''Disarmed'', ''12'', True),
         (''KITCHEN'', ''Armed'', [], False)])
     = [True, False, True]
   \<and> ack_toggle (snd (build_screen_frame (initial_keypad\<lparr>needs_button_ack := True\<rparr>))) = 0x00
   \<and> ack_toggle (snd (build_screen_frame initial_keypad)) = 0x02"
  using screen_sequence_bit_alternates
          [of initial_keypad
              "[(''KITCHEN'', ''Disarmed'', [], False), (''KITCHEN'', ''Disarmed'', ''12'', True),
                (''KITCHEN'', ''Armed'', [], False)]"]
        screen_sequence_bit_alternates [of "initial_keypad\<lparr>needs_button_ack := True\<rparr>" "[]"]
  by (simp add: toggles_ok_def initial_keypad_def)

end
